theory Spec2Isabelle
  imports Complex_Main
begin

section \<open>Python built-ins used by the two source files\<close>

text \<open>
  Strings are lists of 8-bit characters; the model covers ASCII text. A Python \<open>float\<close> is
  modelled by its exact rational value together with the three non-finite values, so the
  rounding of binary64 arithmetic (and overflow of huge literals to infinity, and the sign
  of zero) is abstracted away: \<open>Fin r\<close> stands for the double nearest to \<open>r\<close>.
\<close>

datatype exn = ValueError | TypeError | OverflowError

datatype pyfloat = Fin rat | PInf | NInf | NaN

definition code_of :: "char \<Rightarrow> int" where
  "code_of c = of_char c"

text \<open>\<open>str.lower\<close> on ASCII letters.\<close>

definition lower_char :: "char \<Rightarrow> char" where
  "lower_char c = (if 65 \<le> code_of c \<and> code_of c \<le> 90 then char_of (code_of c + 32) else c)"

definition lower :: "string \<Rightarrow> string" where
  "lower s = map lower_char s"

text \<open>\<open>str.startswith\<close>, \<open>str.endswith\<close> and the substring test \<open>sub in s\<close>.\<close>

definition startswith :: "string \<Rightarrow> string \<Rightarrow> bool" where
  "startswith s p = (take (length p) s = p)"

definition endswith :: "string \<Rightarrow> string \<Rightarrow> bool" where
  "endswith s p = (length p \<le> length s \<and> drop (length s - length p) s = p)"

fun contains :: "string \<Rightarrow> string \<Rightarrow> bool" where
  "contains [] sub = (sub = [])"
| "contains (c # cs) sub = (startswith (c # cs) sub \<or> contains cs sub)"

text \<open>
  \<open>str.strip()\<close> removes the characters for which \<open>str.isspace\<close> holds (within ASCII:
  codes 9 to 13, 28 to 31 and 32); \<open>float\<close> and \<open>int\<close> tolerate only the C whitespace
  (codes 9 to 13 and 32) around a literal.
\<close>

definition is_space :: "char \<Rightarrow> bool" where
  "is_space c = ((9 \<le> code_of c \<and> code_of c \<le> 13) \<or> (28 \<le> code_of c \<and> code_of c \<le> 32))"

definition is_cspace :: "char \<Rightarrow> bool" where
  "is_cspace c = ((9 \<le> code_of c \<and> code_of c \<le> 13) \<or> code_of c = 32)"

definition strip_with :: "(char \<Rightarrow> bool) \<Rightarrow> string \<Rightarrow> string" where
  "strip_with sp s = rev (dropWhile sp (rev (dropWhile sp s)))"

definition strip :: "string \<Rightarrow> string" where
  "strip s = strip_with is_space s"

text \<open>\<open>str.split(sep)\<close> for a one-character separator.\<close>

fun split_on :: "char \<Rightarrow> string \<Rightarrow> string \<Rightarrow> string list" where
  "split_on sep acc [] = [rev acc]"
| "split_on sep acc (c # cs) =
     (if c = sep then rev acc # split_on sep [] cs else split_on sep (c # acc) cs)"

definition str_split :: "string \<Rightarrow> char \<Rightarrow> string list" where
  "str_split s sep = split_on sep [] s"

subsection \<open>Numeric literals\<close>

definition is_digit :: "char \<Rightarrow> bool" where
  "is_digit c = (48 \<le> code_of c \<and> code_of c \<le> 57)"

text \<open>
  \<open>digitpart ::= digit (["_"] digit)*\<close>: the value of the digits read so far (never
  negative), or \<open>None\<close> when the text is not a digit part. The flag tells whether the
  previous character was a digit.
\<close>

fun digitpart_from :: "bool \<Rightarrow> int \<Rightarrow> string \<Rightarrow> int option" where
  "digitpart_from prev n [] = (if prev then Some n else None)"
| "digitpart_from prev n (c # cs) =
     (if is_digit c then digitpart_from True (10 * n + (code_of c - 48)) cs
      else if c = CHR ''_'' \<and> prev then digitpart_from False n cs
      else None)"

definition digitpart :: "string \<Rightarrow> int option" where
  "digitpart s = digitpart_from False 0 s"

text \<open>The number of digits of a digit part (underscores do not count).\<close>

definition ndigits :: "string \<Rightarrow> nat" where
  "ndigits s = length (filter is_digit s)"

text \<open>An optional sign in front of a literal: the flag is True for a minus sign.\<close>

fun take_sign :: "string \<Rightarrow> bool \<times> string" where
  "take_sign [] = (False, [])"
| "take_sign (c # cs) =
     (if c = CHR ''-'' then (True, cs) else if c = CHR ''+'' then (False, cs)
      else (False, c # cs))"

text \<open>\<open>int(s)\<close> on a string, base ten: \<open>None\<close> stands for \<open>ValueError\<close>.\<close>

definition py_int :: "string \<Rightarrow> int option" where
  "py_int s =
     (case take_sign (strip_with is_cspace s) of
        (neg, rest) \<Rightarrow>
          (case digitpart rest of
             None \<Rightarrow> None
           | Some n \<Rightarrow> Some (if neg then - n else n)))"

text \<open>
  \<open>number ::= [digitpart] "." digitpart | digitpart ["."]\<close>: the digits as one
  integer and the count of digits after the point.
\<close>

definition decimal_number :: "string \<Rightarrow> (int \<times> nat) option" where
  "decimal_number s =
     (let ip = takeWhile (\<lambda>c. c \<noteq> CHR ''.'') s;
          rest = dropWhile (\<lambda>c. c \<noteq> CHR ''.'') s
      in if rest = [] then map_option (\<lambda>n. (n, 0)) (digitpart ip)
         else let fp = tl rest
              in if ip = [] then map_option (\<lambda>n. (n, ndigits fp)) (digitpart fp)
                 else if fp = [] then map_option (\<lambda>n. (n, 0)) (digitpart ip)
                 else (case (digitpart ip, digitpart fp) of
                         (Some a, Some b) \<Rightarrow> Some (a * 10 ^ ndigits fp + b, ndigits fp)
                       | _ \<Rightarrow> None))"

text \<open>\<open>exponent ::= ("e" | "E") [sign] digitpart\<close>, given the text after the marker.\<close>

definition exponent :: "string \<Rightarrow> int option" where
  "exponent s =
     (case take_sign s of
        (neg, rest) \<Rightarrow> map_option (\<lambda>n. if neg then - n else n) (digitpart rest))"

definition scale10 :: "int \<Rightarrow> int \<Rightarrow> rat" where
  "scale10 n z = (if 0 \<le> z then of_int n * 10 ^ nat z else of_int n / 10 ^ nat (- z))"

definition is_e :: "char \<Rightarrow> bool" where
  "is_e c = (c = CHR ''e'' \<or> c = CHR ''E'')"

definition floatnumber :: "string \<Rightarrow> rat option" where
  "floatnumber s =
     (let m = takeWhile (\<lambda>c. \<not> is_e c) s;
          rest = dropWhile (\<lambda>c. \<not> is_e c) s
      in case decimal_number m of
           None \<Rightarrow> None
         | Some (n, k) \<Rightarrow>
             if rest = [] then Some (scale10 n (- int k))
             else (case exponent (tl rest) of
                     None \<Rightarrow> None
                   | Some z \<Rightarrow> Some (scale10 n (z - int k))))"

text \<open>\<open>float(s)\<close> on a string: \<open>None\<close> stands for \<open>ValueError\<close>.\<close>

definition py_float :: "string \<Rightarrow> pyfloat option" where
  "py_float s =
     (case take_sign (strip_with is_cspace s) of
        (neg, rest) \<Rightarrow>
          if lower rest = ''inf'' \<or> lower rest = ''infinity''
          then Some (if neg then NInf else PInf)
          else if lower rest = ''nan'' then Some NaN
          else map_option (\<lambda>r. Fin (if neg then - r else r)) (floatnumber rest))"

subsection \<open>Float arithmetic\<close>

text \<open>Multiplication and division by a positive finite constant.\<close>

fun fscale :: "pyfloat \<Rightarrow> rat \<Rightarrow> pyfloat" where
  "fscale (Fin r) c = Fin (r * c)"
| "fscale x c = x"




fun flt :: "pyfloat \<Rightarrow> pyfloat \<Rightarrow> bool" where
  "flt (Fin a) (Fin b) = (a < b)"
| "flt NaN y = False"
| "flt x NaN = False"
| "flt NInf NInf = False"
| "flt NInf y = True"
| "flt x PInf = (x \<noteq> PInf)"
| "flt x NInf = False"
| "flt PInf y = False"



text \<open>\<open>int(x)\<close> on a float truncates toward zero and raises on the non-finite values.\<close>

definition trunc :: "rat \<Rightarrow> int" where
  "trunc r = (if 0 \<le> r then \<lfloor>r\<rfloor> else \<lceil>r\<rceil>)"

fun int_of_float :: "pyfloat \<Rightarrow> exn + int" where
  "int_of_float (Fin r) = Inr (trunc r)"
| "int_of_float NaN = Inl ValueError"
| "int_of_float x = Inl OverflowError"

section \<open>run\_measurement\_serial.py: decoding values and data lines\<close>

text \<open>The dictionary \<open>multipliers\<close>, in its insertion order, which is the order of iteration.\<close>

definition multipliers :: "(string \<times> rat) list" where
  "multipliers =
     [(''n'', 1 / 10 ^ 9), (''u'', 1 / 10 ^ 6), (''m'', 1 / 10 ^ 3),
      ('''', 1), (''k'', 10 ^ 3), (''M'', 10 ^ 6)]"

text \<open>
  The loop \<open>for suffix in multipliers\<close>: the first suffix the text ends with decides, and a
  number that does not parse gives 0.0. \<open>None\<close> means the loop fell through.
\<close>

fun find_suffix :: "(string \<times> rat) list \<Rightarrow> string \<Rightarrow> pyfloat option" where
  "find_suffix [] text = None"
| "find_suffix ((suffix, mult) # rest) text =
     (if endswith text suffix
      then (let number = (if suffix \<noteq> [] then take (length text - length suffix) text else text)
            in case py_float number of
                 Some v \<Rightarrow> Some (fscale v mult)
               | None \<Rightarrow> Some (Fin 0))
      else find_suffix rest text)"

definition parse_value :: "string \<Rightarrow> exn + pyfloat" where
  "parse_value text =
     (if CHR ''e'' \<in> set (lower text)
      then (case py_float text of Some v \<Rightarrow> Inr v | None \<Rightarrow> Inl ValueError)
      else (case find_suffix multipliers text of
              Some v \<Rightarrow> Inr v
            | None \<Rightarrow> (case py_float text of Some v \<Rightarrow> Inr v | None \<Rightarrow> Inr (Fin 0))))"

record sample =
  potential :: pyfloat
  current :: pyfloat

text \<open>
  The loop over the fields of a line; the dictionary \<open>data_point\<close> is the pair of its two
  possible entries. An exception of \<open>parse_value\<close> leaves the loop.
\<close>

fun parse_parts :: "string list \<Rightarrow> pyfloat option \<times> pyfloat option
    \<Rightarrow> exn + (pyfloat option \<times> pyfloat option)" where
  "parse_parts [] dp = Inr dp"
| "parse_parts (part # parts) (pot, cur) =
     (if startswith part ''P''
      then (case parse_value (drop 1 part) of
              Inl e \<Rightarrow> Inl e
            | Inr v \<Rightarrow> parse_parts parts (Some (fscale v (1 / 1000)), cur))
      else if startswith part ''DA'' \<or> startswith part ''BA''
      then (if startswith part ''DA''
            then (case parse_value (drop 2 part) of
                    Inl e \<Rightarrow> Inl e
                  | Inr v \<Rightarrow> parse_parts parts (pot, Some (fscale v (10 ^ 6))))
            else parse_parts parts (pot, cur))
      else parse_parts parts (pot, cur))"

text \<open>\<open>parse_data_line\<close> on the list \<open>data_points\<close>: every exception is swallowed.\<close>

definition parse_data_line :: "sample list \<Rightarrow> string \<Rightarrow> sample list" where
  "parse_data_line data_points line =
     (case parse_parts (str_split line CHR '';'') (None, None) of
        Inl e \<Rightarrow> data_points
      | Inr (Some p, Some c) \<Rightarrow> data_points @ [\<lparr>potential = p, current = c\<rparr>]
      | Inr _ \<Rightarrow> data_points)"

section \<open>run\_measurement\_serial.py: the session with the instrument\<close>

text \<open>
  What the serial port does is an input of the model. One call of \<open>readline\<close> returns
  bytes (none when the read timed out), raises \<open>SerialTimeoutException\<close>, or raises
  something else; the calls are numbered from 0. Decoding the bytes is the identity on
  ASCII text.
\<close>

datatype read_result = Bytes string | ReadTimeout | ReadError

datatype connect_outcome = NoDevice | OpenRaised | ProbeRaised | NoReply | Replied

record device =
  script_exists :: bool
  script_readable :: bool
  connect_result :: connect_outcome
  send_raises :: bool
  readline :: "nat \<Rightarrow> read_result"

datatype port_state = PortOpen | PortClosed

text \<open>
  The attributes of a \<open>SerialMeasurementRunner\<close>. The constructor stores its boolean
  argument \<open>save_data\<close> in the attribute \<open>self.save_data\<close>, which hides the method of
  the same name from then on.
\<close>

record runner =
  save_data :: bool
  data_points :: "sample list"
  connection :: "port_state option"

definition init_runner :: runner where
  "init_runner = \<lparr>save_data = True, data_points = [], connection = None\<rparr>"

text \<open>\<open>connect\<close>: the port stays assigned whenever the constructor of the port returned.\<close>

fun connect :: "runner \<Rightarrow> connect_outcome \<Rightarrow> bool \<times> runner" where
  "connect r NoDevice = (False, r)"
| "connect r OpenRaised = (False, r)"
| "connect r ProbeRaised = (False, r\<lparr>connection := Some PortOpen\<rparr>)"
| "connect r NoReply = (False, r\<lparr>connection := Some PortOpen\<rparr>)"
| "connect r Replied = (True, r\<lparr>connection := Some PortOpen\<rparr>)"

definition disconnect :: "runner \<Rightarrow> runner" where
  "disconnect r = (case connection r of None \<Rightarrow> r | Some c \<Rightarrow> r\<lparr>connection := Some PortClosed\<rparr>)"

definition max_timeout :: nat where
  "max_timeout = 600"

definition end_markers :: "string list" where
  "end_markers = [''*'', ''Measurement completed'', ''Script completed'']"

datatype loop_exit = EndMarker | AbortMarker | Exhausted | Raised

text \<open>
  The body of the receive loop for a non-empty stripped line: the data points after the
  line, and how the loop goes on (\<open>None\<close>: the counter is reset and the loop continues).
\<close>

definition points_after :: "sample list \<Rightarrow> string \<Rightarrow> sample list" where
  "points_after pts text = (if startswith text ''P'' then parse_data_line pts text else pts)"

definition break_on :: "string \<Rightarrow> loop_exit option" where
  "break_on text =
     (if text \<in> set end_markers then Some EndMarker
      else if startswith text ''!'' \<and> contains (lower text) ''abort'' then Some AbortMarker
      else None)"

record loop_result =
  exit_by :: loop_exit
  reads_done :: nat
  timeout_counter :: nat
  points :: "sample list"

text \<open>
  The loop \<open>while timeout_counter < max_timeout\<close>, started at read number \<open>i\<close>. It need
  not end: a device that keeps sending lines keeps it running, and then the value is
  \<open>None\<close>.
\<close>

partial_function (option) receive_loop ::
    "(nat \<Rightarrow> read_result) \<Rightarrow> nat \<Rightarrow> nat \<Rightarrow> sample list \<Rightarrow> loop_result option" where
  "receive_loop rd i tc pts =
     (if tc < max_timeout
      then (case rd i of
              ReadTimeout \<Rightarrow> receive_loop rd (i + 1) (tc + 1) pts
            | ReadError \<Rightarrow>
                Some \<lparr>exit_by = Raised, reads_done = i + 1, timeout_counter = tc, points = pts\<rparr>
            | Bytes line \<Rightarrow>
                if line = [] then receive_loop rd (i + 1) (tc + 1) pts
                else if strip line = [] then receive_loop rd (i + 1) tc pts
                else (case break_on (strip line) of
                        Some how \<Rightarrow>
                          Some \<lparr>exit_by = how, reads_done = i + 1, timeout_counter = tc,
                                points = points_after pts (strip line)\<rparr>
                      | None \<Rightarrow> receive_loop rd (i + 1) 0 (points_after pts (strip line))))
      else Some \<lparr>exit_by = Exhausted, reads_done = i, timeout_counter = tc, points = pts\<rparr>)"

declare receive_loop.simps [code]

text \<open>
  \<open>run_script\<close>: the value returned, whether the branch that reports the timeout was
  taken, the number of reads, and the runner afterwards.
\<close>

record script_result =
  returned :: bool
  timed_out :: bool
  reads :: nat
  runner_after :: runner

definition run_script :: "runner \<Rightarrow> device \<Rightarrow> script_result option" where
  "run_script r dev =
     (if connection r = None
      then Some \<lparr>returned = False, timed_out = False, reads = 0, runner_after = r\<rparr>
      else if send_raises dev
      then Some \<lparr>returned = False, timed_out = False, reads = 0, runner_after = r\<rparr>
      else (case receive_loop (readline dev) 0 0 (data_points r) of
              None \<Rightarrow> None
            | Some l \<Rightarrow>
                Some \<lparr>returned = (exit_by l \<noteq> Raised),
                      timed_out = (exit_by l \<noteq> Raised \<and> max_timeout \<le> timeout_counter l),
                      reads = reads_done l,
                      runner_after = r\<lparr>data_points := points l\<rparr>\<rparr>))"

text \<open>
  \<open>run\<close>: the exit code returned, or the exception that leaves it. Calling
  \<open>self.save_data()\<close> calls the boolean stored by the constructor, which raises
  \<open>TypeError\<close>; the \<open>finally\<close> clause disconnects on every way out of the \<open>try\<close>.
\<close>

definition run :: "runner \<Rightarrow> device \<Rightarrow> ((exn + int) \<times> runner) option" where
  "run r dev =
     (if \<not> script_readable dev then Some (Inr 1, r)
      else (case connect r (connect_result dev) of
              (False, r1) \<Rightarrow> Some (Inr 1, r1)
            | (True, r1) \<Rightarrow>
                (case run_script r1 dev of
                   None \<Rightarrow> None
                 | Some res \<Rightarrow>
                     (if returned res
                      then (if save_data (runner_after res) \<and> data_points (runner_after res) \<noteq> []
                            then Some (Inl TypeError, disconnect (runner_after res))
                            else Some (Inr 0, disconnect (runner_after res)))
                      else Some (Inr 1, disconnect (runner_after res))))))"

text \<open>
  \<open>main\<close> with a script path on the command line: the exit status of the process. An
  exception that nobody catches ends the interpreter with status 1.
\<close>

definition main :: "device \<Rightarrow> int option" where
  "main dev =
     (if \<not> script_exists dev then Some 1
      else (case run init_runner dev of
              None \<Rightarrow> None
            | Some (Inl e, r) \<Rightarrow> Some 1
            | Some (Inr code, r) \<Rightarrow> Some code))"

definition no_line :: "read_result \<Rightarrow> bool" where
  "no_line r = (r = Bytes [] \<or> r = ReadTimeout)"

section \<open>gui\_script.py: the script encoders\<close>





definition tab :: char where
  "tab = CHR 0x09"

definition newline :: char where
  "newline = CHR 0x0A"

text \<open>Exceptions as values: \<open>float(s)\<close> on the text of an entry, and sequencing.\<close>

definition to_float :: "string \<Rightarrow> exn + pyfloat" where
  "to_float s = (case py_float s of None \<Rightarrow> Inl ValueError | Some v \<Rightarrow> Inr v)"

definition to_int :: "string \<Rightarrow> exn + int" where
  "to_int s = (case py_int s of None \<Rightarrow> Inl ValueError | Some v \<Rightarrow> Inr v)"

definition then_do :: "exn + 'a \<Rightarrow> ('a \<Rightarrow> exn + 'b) \<Rightarrow> exn + 'b" where
  "then_do m f = (case m of Inl e \<Rightarrow> Inl e | Inr v \<Rightarrow> f v)"

text \<open>The texts of the entry widgets of the CV form, by key.\<close>

record cv_params =
  cv_begin_potential :: string
  cv_vertex1 :: string
  cv_vertex2 :: string
  cv_step_potential :: string
  cv_scan_rate :: string
  cv_n_scans :: string
  cv_cond_potential :: string
  cv_cond_time :: string

text \<open>
  The text built by \<open>create_cv_methodscript\<close> once \<open>float(cond_time)\<close> and
  \<open>int(n_scans)\<close> have returned; every other entry goes into the text as it is.
\<close>

definition cv_script :: "cv_params \<Rightarrow> pyfloat \<Rightarrow> int \<Rightarrow> string" where
  "cv_script p ct ns =
     ''e\<newline>'' @ ''var c\<newline>'' @ ''var p\<newline>'' @ ''set_pgstat_mode 2\<newline>''
     @ ''set_max_bandwidth 40\<newline>'' @ ''set_range ba 100u\<newline>''
     @ ''set_autoranging ba 1n 100u\<newline>''
     @ (if flt (Fin 0) ct
        then ''set_e '' @ cv_cond_potential p @ ''\<newline>''
             @ ''cell_on\<newline>''
             @ ''#autorange for '' @ cv_cond_time p @ ''s prior to CV\<newline>''
             @ ''meas_loop_ca p c '' @ cv_cond_potential p @ '' 100m '' @ cv_cond_time p
             @ ''\<newline>''
             @ ''endloop\<newline>''
        else ''set_e 0m\<newline>'' @ ''cell_on\<newline>'')
     @ ''# E_res, I_res, E_begin, E_vtx1, E_vtx2, E_step, scan_rate\<newline>''
     @ ''meas_loop_cv p c '' @ cv_begin_potential p @ '' '' @ cv_vertex1 p @ '' ''
     @ cv_vertex2 p @ '' '' @ cv_step_potential p @ '' '' @ cv_scan_rate p
     @ (if 1 < ns then '' nscans('' @ cv_n_scans p @ '')'' else [])
     @ ''\<newline>''
     @ tab # ''pck_start\<newline>'' @ tab # ''pck_add p\<newline>'' @ tab # ''pck_add c\<newline>''
     @ tab # ''pck_end\<newline>'' @ ''endloop\<newline>'' @ ''on_finished:\<newline>''
     @ ''cell_off\<newline>\<newline>''"

definition create_cv_methodscript :: "cv_params \<Rightarrow> exn + string" where
  "create_cv_methodscript p =
     then_do (to_float (cv_cond_time p)) (\<lambda>ct.
     then_do (to_int (cv_n_scans p)) (\<lambda>ns.
     Inr (cv_script p ct ns)))"
















section \<open>gui\_script.py: the queue\<close>

text \<open>
  A queue item is a dictionary; the keys that \<open>add_to_queue\<close> or \<open>add_pump_to_queue\<close>
  may leave out are optional. Display refreshes and the status bar are not modelled.
\<close>

record queue_item =
  item_type :: string
  status :: string
  details :: string
  script_path :: "string option"
  action :: "string option"
  port :: "int option"
  parameter :: "pyfloat option"

text \<open>
  What the outside does during one pass of the loop: how the measurement process ends,
  which calls of the pump driver raise, and whether \<open>stop_queue\<close> runs meanwhile.
\<close>

datatype proc_result = PopenRaised | Exited int

datatype pump_call = Extract int int | Dispense int int | ChangePort int | DispenseToWaste

record ext =
  proc :: proc_result
  pump_fails :: "pump_call \<Rightarrow> bool"
  stop_pressed :: bool

record gui =
  measurement_queue :: "queue_item list"
  is_running :: bool
  pump :: bool

text \<open>\<open>time.sleep\<close> raises on a negative or non-finite argument.\<close>

fun sleep_raises :: "pyfloat \<Rightarrow> bool" where
  "sleep_raises (Fin r) = (r < 0)"
| "sleep_raises x = True"

text \<open>Whether the \<open>try\<close> block of \<open>execute_pump_action\<close> raises.\<close>

definition pump_body_raises :: "(pump_call \<Rightarrow> bool) \<Rightarrow> queue_item \<Rightarrow> bool" where
  "pump_body_raises fails item =
     (case action item of
        None \<Rightarrow> True
      | Some a \<Rightarrow>
          (let prt = (case port item of None \<Rightarrow> 1 | Some q \<Rightarrow> q);
               param = (case parameter item of None \<Rightarrow> Fin 0 | Some x \<Rightarrow> x)
           in if a = ''extract''
              then (case int_of_float param of Inl e \<Rightarrow> True | Inr n \<Rightarrow> fails (Extract prt n))
              else if a = ''dispense''
              then (case int_of_float param of Inl e \<Rightarrow> True | Inr n \<Rightarrow> fails (Dispense prt n))
              else if a = ''change_port'' then fails (ChangePort prt)
              else if a = ''empty_to_waste'' then fails DispenseToWaste
              else if a = ''wait'' then sleep_raises param
              else False))"

definition execute_pump_action :: "bool \<Rightarrow> (pump_call \<Rightarrow> bool) \<Rightarrow> queue_item \<Rightarrow> queue_item" where
  "execute_pump_action bound fails action_item =
     (if \<not> bound then action_item\<lparr>status := ''skipped''\<rparr>
      else if pump_body_raises fails action_item then action_item\<lparr>status := ''failed''\<rparr>
      else action_item\<lparr>status := ''completed''\<rparr>)"

text \<open>The \<open>try\<close> block of the loop body of \<open>execute_queue_serial\<close> with its handler.\<close>

definition dispatch :: "bool \<Rightarrow> ext \<Rightarrow> queue_item \<Rightarrow> queue_item" where
  "dispatch bound x current_item =
     (if startswith (item_type current_item) ''PUMP_''
      then execute_pump_action bound (pump_fails x) current_item
      else (case script_path current_item of
              None \<Rightarrow> current_item\<lparr>status := ''failed''\<rparr>
            | Some path \<Rightarrow>
                (case proc x of
                   PopenRaised \<Rightarrow> current_item\<lparr>status := ''failed''\<rparr>
                 | Exited return_code \<Rightarrow>
                     if return_code = 0 then current_item\<lparr>status := ''completed''\<rparr>
                     else current_item\<lparr>status := ''failed''\<rparr>)))"

text \<open>
  One pass of the loop body: the head is marked running, dispatched and popped. The
  popped dictionary is returned beside the state, since nothing else keeps it.
\<close>

definition queue_step :: "ext \<Rightarrow> gui \<Rightarrow> gui \<times> queue_item list" where
  "queue_step x g =
     (case measurement_queue g of
        [] \<Rightarrow> (g, [])
      | current_item # rest \<Rightarrow>
          (g\<lparr>measurement_queue := rest, is_running := (is_running g \<and> \<not> stop_pressed x)\<rparr>,
           [dispatch (pump g) x (current_item\<lparr>status := ''running''\<rparr>)]))"

text \<open>
  \<open>execute_queue_serial\<close>, pass number \<open>k\<close> onwards, with the items popped so far.
\<close>

function execute_queue_serial ::
    "(nat \<Rightarrow> ext) \<Rightarrow> nat \<Rightarrow> gui \<Rightarrow> queue_item list \<Rightarrow> gui \<times> queue_item list" where
  "execute_queue_serial w k g popped =
     (if measurement_queue g \<noteq> [] \<and> is_running g
      then execute_queue_serial w (k + 1) (fst (queue_step (w k) g))
             (popped @ snd (queue_step (w k) g))
      else (g\<lparr>is_running := False\<rparr>, popped))"
  by pat_completeness auto
termination
  by (relation "measure (\<lambda>(w, k, g, popped). length (measurement_queue g))")
     (auto simp: queue_step_def split: list.splits)

declare execute_queue_serial.simps [simp del]

text \<open>\<open>run_queue\<close>: a warning box and nothing else, or the run of the worker thread.\<close>

definition run_queue :: "(nat \<Rightarrow> ext) \<Rightarrow> gui \<Rightarrow> (gui \<times> queue_item list) \<times> (string \<times> string) option" where
  "run_queue w g =
     (if measurement_queue g = [] then ((g, []), Some (''Empty Queue'', ''No items in queue''))
      else if is_running g
      then ((g, []), Some (''Already Running'', ''Queue is already running''))
      else (execute_queue_serial w 0 (g\<lparr>is_running := True\<rparr>) [], None))"

definition stop_queue :: "gui \<Rightarrow> gui" where
  "stop_queue g = g\<lparr>is_running := False\<rparr>"

text \<open>\<open>clear_queue\<close>: the state afterwards and the warning box, if one was shown.\<close>

definition clear_queue :: "gui \<Rightarrow> gui \<times> (string \<times> string) option" where
  "clear_queue g =
     (if is_running g then (g, Some (''Queue Running'', ''Cannot clear queue while running''))
      else (g\<lparr>measurement_queue := []\<rparr>, None))"

text \<open>Kinds of items and outcomes, for stating properties of the queue.\<close>

definition is_measurement :: "queue_item \<Rightarrow> bool" where
  "is_measurement item = (\<not> startswith (item_type item) ''PUMP_'')"

definition measurement_fails :: "ext \<Rightarrow> queue_item \<Rightarrow> bool" where
  "measurement_fails x item =
     (case script_path item of None \<Rightarrow> True | Some path \<Rightarrow> proc x \<noteq> Exited 0)"

definition dispense_succeeds :: "ext \<Rightarrow> queue_item \<Rightarrow> bool" where
  "dispense_succeeds x item =
     (item_type item = ''PUMP_DISPENSE'' \<and> action item = Some ''dispense''
      \<and> \<not> pump_body_raises (pump_fails x) item)"

definition terminal :: "string \<Rightarrow> bool" where
  "terminal st = (st = ''completed'' \<or> st = ''failed'' \<or> st = ''skipped'')"

section \<open>Example inputs\<close>

definition cv_item :: queue_item where
  "cv_item =
     \<lparr>item_type = ''CV'', status = ''pending'', details = ''001_cv.ms'',
      script_path = Some ''methods/2024-01-01/001_cv.ms'', action = None, port = None,
      parameter = None\<rparr>"

definition dispense_item :: queue_item where
  "dispense_item =
     \<lparr>item_type = ''PUMP_DISPENSE'', status = ''pending'',
      details = ''Dispense 100.0 uL, Port 1'', script_path = None,
      action = Some ''dispense'', port = Some 1, parameter = Some (Fin 100)\<rparr>"

text \<open>A world in which the measurement process exits with the given status.\<close>

definition world_exit :: "int \<Rightarrow> nat \<Rightarrow> ext" where
  "world_exit code k = \<lparr>proc = Exited code, pump_fails = (\<lambda>c. False), stop_pressed = False\<rparr>"

text \<open>A device that answers the probe and then stays silent.\<close>

definition silent_device :: device where
  "silent_device =
     \<lparr>script_exists = True, script_readable = True, connect_result = Replied,
      send_raises = False, readline = (\<lambda>i. Bytes [])\<rparr>"

text \<open>A device that sends one data line and then stays silent.\<close>

definition one_line_device :: device where
  "one_line_device =
     \<lparr>script_exists = True, script_readable = True, connect_result = Replied,
      send_raises = False,
      readline = (\<lambda>i. if i = 0 then Bytes ''P-500m;DA-2.345e-6;BA100u\<newline>'' else Bytes [])\<rparr>"






section \<open>Decoding values\<close>

lemma split_on_field:
  "sep \<notin> set f \<Longrightarrow> split_on sep acc (f @ rest) = split_on sep (rev f @ acc) rest"
  by (induction f arbitrary: acc) auto

lemma split_on_end:
  "sep \<notin> set f \<Longrightarrow> split_on sep acc f = [rev acc @ f]"
  by (induction f arbitrary: acc) auto

lemma startswith_Nil [simp]: "startswith s [] = True"
  by (simp add: startswith_def)

lemma startswith_Nil_Cons [simp]: "startswith [] (d # p) = False"
  by (simp add: startswith_def)

lemma startswith_Cons [simp]: "startswith (c # s) (d # p) = (c = d \<and> startswith s p)"
  by (auto simp: startswith_def)

lemma digitpart_from_bad:
  assumes "c \<in> set s" and "\<not> is_digit c" and "c \<noteq> CHR ''_''"
  shows "digitpart_from prev n s = None"
  using assms by (induction s arbitrary: prev n) auto

lemma digitpart_bad:
  assumes "s \<noteq> []" and "last s = c" and "\<not> is_digit c" and "c \<noteq> CHR ''_''"
  shows "digitpart s = None"
proof -
  have "c \<in> set s" using assms(1,2) last_in_set by blast
  then show ?thesis using assms(3,4) by (simp add: digitpart_def digitpart_from_bad)
qed

lemma decimal_number_bad:
  assumes "s \<noteq> []" and "last s = c" and "\<not> is_digit c" and "c \<noteq> CHR ''_''"
    and "c \<noteq> CHR ''.''"
  shows "decimal_number s = None"
proof -
  let ?P = "\<lambda>x. x \<noteq> CHR ''.''"
  let ?ip = "takeWhile ?P s" and ?r = "dropWhile ?P s"
  show ?thesis
  proof (cases "?r = []")
    case True
    then have ip: "?ip = s" by (metis append_Nil2 takeWhile_dropWhile_id)
    show ?thesis
      unfolding decimal_number_def Let_def ip
      using True digitpart_bad [OF assms(1-4)] by simp
  next
    case False
    then have h: "hd ?r = CHR ''.''" using hd_dropWhile [of ?P s] by simp
    have s: "s = ?ip @ ?r" by simp
    have lr: "last ?r = c" using False assms(2) s by (metis last_appendR)
    obtain fp where r: "?r = CHR ''.'' # fp" using False h by (cases ?r) auto
    have fp: "fp \<noteq> []" using lr r assms(5) by auto
    have lfp: "last fp = c" using lr r fp by simp
    have d: "digitpart fp = None" using digitpart_bad [OF fp lfp assms(3,4)] .
    show ?thesis
      using r fp d by (simp add: decimal_number_def Let_def split: option.splits)
  qed
qed

lemma floatnumber_bad:
  assumes "s \<noteq> []" and "last s = c" and "\<not> is_digit c" and "c \<noteq> CHR ''_''"
    and "c \<noteq> CHR ''.''" and "\<forall>x\<in>set s. \<not> is_e x"
  shows "floatnumber s = None"
proof -
  have tw: "takeWhile (\<lambda>x. \<not> is_e x) s = s" using assms(6) by simp
  show ?thesis
    unfolding floatnumber_def Let_def tw
    using decimal_number_bad [OF assms(1-5)] by simp
qed

lemma strip_with_last:
  assumes "s \<noteq> []" and "\<not> sp (last s)"
  shows "strip_with sp s \<noteq> [] \<and> last (strip_with sp s) = last s
         \<and> set (strip_with sp s) \<subseteq> set s"
proof -
  let ?d = "dropWhile sp s"
  have ne: "?d \<noteq> []" using assms by (metis dropWhile_eq_Nil_conv last_in_set)
  have "s = takeWhile sp s @ ?d" by simp
  then have l: "last ?d = last s" using ne by (metis last_appendR)
  have "hd (rev ?d) = last s" using ne l by (simp add: hd_rev)
  then have "dropWhile sp (rev ?d) = rev ?d"
    using assms(2) ne by (cases "rev ?d") auto
  then have "strip_with sp s = ?d" by (simp add: strip_with_def)
  then show ?thesis using ne l set_dropWhileD by fastforce
qed

lemma take_sign_last:
  assumes "s \<noteq> []" and "last s \<noteq> CHR ''-''" and "last s \<noteq> CHR ''+''"
  shows "snd (take_sign s) \<noteq> [] \<and> last (snd (take_sign s)) = last s
         \<and> set (snd (take_sign s)) \<subseteq> set s"
proof (cases s)
  case Nil
  then show ?thesis using assms by simp
next
  case (Cons x xs)
  show ?thesis
  proof (cases "xs = []")
    case True
    then show ?thesis using Cons assms by auto
  next
    case False
    then show ?thesis using Cons by auto
  qed
qed

lemma lower_char_e:
  assumes "is_e x"
  shows "lower_char x = CHR ''e''"
proof -
  have "lower_char CHR ''e'' = CHR ''e''" by code_simp
  moreover have "lower_char CHR ''E'' = CHR ''e''" by code_simp
  ultimately show ?thesis using assms by (auto simp: is_e_def)
qed

lemma no_e_chars:
  assumes "CHR ''e'' \<notin> set (lower text)" and "x \<in> set text"
  shows "\<not> is_e x"
proof
  assume "is_e x"
  then have "lower_char x = CHR ''e''" by (rule lower_char_e)
  then have "CHR ''e'' \<in> lower_char ` set text" using assms(2) by force
  then show False using assms(1) unfolding lower_def by simp
qed

lemma py_float_kilo_mega:
  assumes "text \<noteq> []" and "last text = c" and "c = CHR ''k'' \<or> c = CHR ''M''"
    and "CHR ''e'' \<notin> set (lower text)"
  shows "py_float text = None"
proof -
  have props: "\<not> is_cspace c" "c \<noteq> CHR ''-''" "c \<noteq> CHR ''+''" "\<not> is_digit c"
    "c \<noteq> CHR ''_''" "c \<noteq> CHR ''.''"
    using assms(3) by (auto simp: is_cspace_def is_digit_def code_of_def)
  have lc: "lower_char c = CHR ''k'' \<or> lower_char c = CHR ''m''"
  proof -
    have "lower_char CHR ''k'' = CHR ''k''" by code_simp
    moreover have "lower_char CHR ''M'' = CHR ''m''" by code_simp
    ultimately show ?thesis using assms(3) by auto
  qed
  let ?d = "strip_with is_cspace text"
  have d: "?d \<noteq> []" "last ?d = c" "set ?d \<subseteq> set text"
    using strip_with_last [of "text" is_cspace] assms(1,2) props(1) by simp_all
  obtain neg rest where ts: "take_sign ?d = (neg, rest)" by (cases "take_sign ?d")
  have r: "rest \<noteq> []" "last rest = c" "set rest \<subseteq> set text"
    using take_sign_last [of ?d] d props(2,3) ts by auto
  have ll: "last (lower rest) = lower_char c"
    using r(1,2) by (simp add: lower_def last_map)
  have n1: "lower rest \<noteq> ''inf''" using ll lc by auto
  have n2: "lower rest \<noteq> ''infinity''" using ll lc by auto
  have n3: "lower rest \<noteq> ''nan''" using ll lc by auto
  have ne: "\<forall>x\<in>set rest. \<not> is_e x" using no_e_chars [OF assms(4)] r(3) by blast
  have fn: "floatnumber rest = None"
    using r(1,2) props(4,5,6) ne by (rule floatnumber_bad)
  show ?thesis
    unfolding py_float_def ts using n1 n2 n3 fn by simp
qed

lemma endswith_single: "endswith s [c] \<longleftrightarrow> s \<noteq> [] \<and> last s = c"
proof (cases s rule: rev_cases)
  case Nil
  then show ?thesis by (simp add: endswith_def)
next
  case (snoc ys y)
  then show ?thesis by (auto simp: endswith_def)
qed

lemma endswith_empty [simp]: "endswith s []"
  by (simp add: endswith_def)

lemma parse_value_small_suffix:
  assumes "CHR ''e'' \<notin> set (lower (p @ [c]))" and "py_float p = Some v"
  shows "c = CHR ''n'' \<Longrightarrow> parse_value (p @ [c]) = Inr (fscale v (1 / 10 ^ 9))"
    and "c = CHR ''u'' \<Longrightarrow> parse_value (p @ [c]) = Inr (fscale v (1 / 10 ^ 6))"
    and "c = CHR ''m'' \<Longrightarrow> parse_value (p @ [c]) = Inr (fscale v (1 / 10 ^ 3))"
  using assms by (simp_all add: parse_value_def multipliers_def endswith_single)

text \<open>
  Claim C1. The specification wants every suffix of the table to scale the number in front
  of it, the empty suffix never taking the place of a real one. The dictionary lists the
  empty suffix before \<open>k\<close> and \<open>M\<close>, and every text ends with the empty suffix, so the loop
  never reaches those two entries: a text without the letter e that ends in \<open>k\<close> or \<open>M\<close> is
  handed to \<open>float\<close> whole, which rejects it, and the value is 0.0 (for \<open>5k\<close> and \<open>2M\<close>
  instead of 5000 and 2000000).
\<close>

theorem parse_value_kilo_mega_shadowed:
  assumes "CHR ''e'' \<notin> set (lower text)" and "endswith text ''k'' \<or> endswith text ''M''"
  shows "parse_value text = Inr (Fin 0)"
proof -
  obtain c where c: "c = CHR ''k'' \<or> c = CHR ''M''" and ne: "text \<noteq> []"
    and l: "last text = c"
    using assms(2) by (auto simp: endswith_single)
  have pf: "py_float text = None"
    using ne l c assms(1) by (rule py_float_kilo_mega)
  have "find_suffix multipliers text = Some (Fin 0)"
    using c l ne pf by (auto simp: multipliers_def endswith_single)
  then show ?thesis using assms(1) by (simp add: parse_value_def)
qed

theorem parse_value_kilo_mega_shadowed_witness:
  "parse_value ''5k'' = Inr (Fin 0) \<and> parse_value ''2M'' = Inr (Fin 0)"
proof -
  have e1: "CHR ''e'' \<notin> set (lower ''5k'')" by code_simp
  have e2: "CHR ''e'' \<notin> set (lower ''2M'')" by code_simp
  have k: "endswith ''5k'' ''k''" by code_simp
  have m: "endswith ''2M'' ''M''" by code_simp
  show ?thesis
    using parse_value_kilo_mega_shadowed [OF e1] parse_value_kilo_mega_shadowed [OF e2] k m
    by simp
qed

text \<open>
  Claim C4. The specification wants 0.0 for every text whose number does not parse. A text
  that contains the letter e goes to \<open>float\<close> outside any \<open>try\<close>: when \<open>float\<close>
  rejects it, as it does for the text \<open>garbage\<close>, the \<open>ValueError\<close> reaches the caller.
\<close>

theorem parse_value_garbage_raises:
  assumes "CHR ''e'' \<in> set (lower text)" and "py_float text = None"
  shows "parse_value text = Inl ValueError"
  using assms by (simp add: parse_value_def)

theorem parse_value_garbage_raises_witness:
  "parse_value ''garbage'' = Inl ValueError"
proof -
  have e: "CHR ''e'' \<in> set (lower ''garbage'')" by code_simp
  have f: "py_float ''garbage'' = None" by code_simp
  show ?thesis using e f by (rule parse_value_garbage_raises)
qed

text \<open>
  Claim C2. A line \<open>P<v>;DA<c>;BA<r>\<close> whose two values decode gives exactly one sample:
  the decoded potential divided by 1000 and the decoded current multiplied by 1e6. For the
  line from the comment in \<open>parse_data_line\<close> the potential therefore is -0.0005 and not
  -0.5: \<open>parse_value\<close> has already applied the suffix \<open>m\<close> (-500m is -0.5) when the
  result is divided by 1000 once more. The current is -2.345.
\<close>

theorem parse_data_line_scales_twice:
  assumes "CHR '';'' \<notin> set v" and "CHR '';'' \<notin> set c" and "CHR '';'' \<notin> set r"
    and "parse_value v = Inr x" and "parse_value c = Inr y"
  shows "parse_data_line pts (''P'' @ v @ '';DA'' @ c @ '';BA'' @ r)
           = pts @ [\<lparr>potential = fscale x (1 / 1000), current = fscale y (10 ^ 6)\<rparr>]"
proof -
  have parts: "str_split (''P'' @ v @ '';DA'' @ c @ '';BA'' @ r) CHR '';''
      = [''P'' @ v, ''DA'' @ c, ''BA'' @ r]"
    using assms(1-3) by (simp add: str_split_def split_on_field split_on_end)
  have "parse_parts [''P'' @ v, ''DA'' @ c, ''BA'' @ r] (None, None)
      = Inr (Some (fscale x (1 / 1000)), Some (fscale y (10 ^ 6)))"
    using assms(4,5) by simp
  then show ?thesis
    unfolding parse_data_line_def parts by simp
qed

theorem parse_data_line_scales_twice_witness:
  "parse_value ''-500m'' = Inr (Fin (- 1 / 2))
   \<and> parse_data_line [] ''P-500m;DA-2.345e-6;BA100u''
       = [\<lparr>potential = Fin (- 1 / 2000), current = Fin (- 2345 / 1000)\<rparr>]"
proof -
  have v: "CHR '';'' \<notin> set ''-500m''" by code_simp
  have c: "CHR '';'' \<notin> set ''-2.345e-6''" by code_simp
  have r: "CHR '';'' \<notin> set ''100u''" by code_simp
  have x: "parse_value ''-500m'' = Inr (Fin (- 1 / 2))" by code_simp
  have y: "parse_value ''-2.345e-6'' = Inr (Fin (- 2345 / 1000000000))" by code_simp
  show ?thesis
    using parse_data_line_scales_twice [OF v c r x y, of "[]"] x by simp
qed

section \<open>The session\<close>

lemma receive_loop_silent:
  assumes "\<forall>j\<ge>i. no_line (rd j)" and "tc \<le> max_timeout"
  shows "receive_loop rd i tc pts =
           Some \<lparr>exit_by = Exhausted, reads_done = i + (max_timeout - tc),
                 timeout_counter = max_timeout, points = pts\<rparr>"
  using assms
proof (induction "max_timeout - tc" arbitrary: i tc)
  case 0
  then have "tc = max_timeout" by simp
  then show ?case by (subst receive_loop.simps) simp
next
  case (Suc k)
  then have lt: "tc < max_timeout" and k: "k = max_timeout - (tc + 1)" by simp_all
  have nl: "no_line (rd i)" using Suc.prems(1) by simp
  have later: "\<forall>j\<ge>i + 1. no_line (rd j)" using Suc.prems(1) by simp
  have step: "receive_loop rd i tc pts = receive_loop rd (i + 1) (tc + 1) pts"
    using lt nl by (subst receive_loop.simps) (auto simp: no_line_def)
  have "receive_loop rd (i + 1) (tc + 1) pts =
          Some \<lparr>exit_by = Exhausted, reads_done = (i + 1) + (max_timeout - (tc + 1)),
                timeout_counter = max_timeout, points = pts\<rparr>"
    using Suc.hyps(1) [OF k later] lt by simp
  with step lt show ?case by simp
qed

lemma run_script_silent:
  assumes "\<forall>i. no_line (readline dev i)" and "\<not> send_raises dev" and "connection r \<noteq> None"
  shows "run_script r dev =
           Some \<lparr>returned = True, timed_out = True, reads = max_timeout, runner_after = r\<rparr>"
  using assms receive_loop_silent [of 0 "readline dev" 0 "data_points r"]
  by (simp add: run_script_def)

lemma run_disconnects:
  assumes "run r dev = Some res" and "script_readable dev" and "connect_result dev = Replied"
  shows "connection (snd res) = Some PortClosed"
  using assms
  by (auto simp: run_def disconnect_def run_script_def split: option.splits if_splits)

lemma one_line_device_loop:
  "receive_loop (readline one_line_device) 0 0 [] =
     Some \<lparr>exit_by = Exhausted, reads_done = 601, timeout_counter = 600,
           points = [\<lparr>potential = Fin (- 1 / 2000), current = Fin (- 2345 / 1000)\<rparr>]\<rparr>"
proof -
  let ?line = "''P-500m;DA-2.345e-6;BA100u\<newline>''"
  let ?text = "''P-500m;DA-2.345e-6;BA100u''"
  let ?pts = "[\<lparr>potential = Fin (- 1 / 2000), current = Fin (- 2345 / 1000)\<rparr>]"
  have st: "strip ?line = ?text" by code_simp
  have br: "break_on ?text = None" by code_simp
  have pa: "points_after [] ?text = ?pts" by code_simp
  have r0: "readline one_line_device 0 = Bytes ?line"
    by (simp add: one_line_device_def)
  have first: "receive_loop (readline one_line_device) 0 0 [] =
      receive_loop (readline one_line_device) 1 0 ?pts"
    by (subst receive_loop.simps) (simp add: r0 st br pa max_timeout_def del: One_nat_def)
  have later: "\<forall>j\<ge>1. no_line (readline one_line_device j)"
    by (simp add: one_line_device_def no_line_def)
  show ?thesis
    using first receive_loop_silent [OF later, of 0 ?pts] by (simp add: max_timeout_def)
qed

lemma one_line_device_run:
  "run init_runner one_line_device =
     Some (Inl TypeError,
           \<lparr>save_data = True,
            data_points = [\<lparr>potential = Fin (- 1 / 2000), current = Fin (- 2345 / 1000)\<rparr>],
            connection = Some PortClosed\<rparr>)"
  using one_line_device_loop
  by (simp add: run_def run_script_def init_runner_def disconnect_def max_timeout_def
      one_line_device_def)

text \<open>
  Claim C8. When no line ever arrives (every read times out), the receive loop ends after
  600 reads, \<open>run_script\<close> takes the branch that reports the timeout and returns with no
  data point, and \<open>run\<close> exits with 0 and the port closed. Moreover, for any device that
  answered the probe, whenever \<open>run\<close> returns the port is closed, however the loop ended.
\<close>

theorem silent_session_times_out:
  assumes "\<forall>i. no_line (readline dev i)"
    and "script_readable dev" and "connect_result dev = Replied" and "\<not> send_raises dev"
  shows "run_script (snd (connect init_runner Replied)) dev =
           Some \<lparr>returned = True, timed_out = True, reads = 600,
                 runner_after = \<lparr>save_data = True, data_points = [],
                                 connection = Some PortOpen\<rparr>\<rparr>
         \<and> run init_runner dev =
             Some (Inr 0, \<lparr>save_data = True, data_points = [], connection = Some PortClosed\<rparr>)
         \<and> (\<forall>other res. script_readable other \<and> connect_result other = Replied
               \<and> run init_runner other = Some res
               \<longrightarrow> connection (snd res) = Some PortClosed)"
proof -
  let ?r = "\<lparr>save_data = True, data_points = [], connection = Some PortOpen\<rparr>"
  have c: "connect init_runner Replied = (True, ?r)"
    by (simp add: init_runner_def)
  have s: "run_script ?r dev =
      Some \<lparr>returned = True, timed_out = True, reads = max_timeout, runner_after = ?r\<rparr>"
    using run_script_silent [of dev ?r] assms by simp
  have r: "run init_runner dev =
      Some (Inr 0, \<lparr>save_data = True, data_points = [], connection = Some PortClosed\<rparr>)"
    using assms c s by (simp add: run_def disconnect_def)
  show ?thesis
    using c s r run_disconnects by (auto simp: max_timeout_def)
qed

theorem silent_session_times_out_witness:
  "run init_runner silent_device =
     Some (Inr 0, \<lparr>save_data = True, data_points = [], connection = Some PortClosed\<rparr>)
   \<and> map_option (connection \<circ> snd) (run init_runner one_line_device)
       = Some (Some PortClosed)"
proof -
  have s: "\<forall>i. no_line (readline silent_device i)"
    and r: "script_readable silent_device" and c: "connect_result silent_device = Replied"
    and w: "\<not> send_raises silent_device"
    by (simp_all add: silent_device_def no_line_def)
  have o: "script_readable one_line_device \<and> connect_result one_line_device = Replied"
    by (simp add: one_line_device_def)
  obtain res where res: "run init_runner one_line_device = Some res"
    using one_line_device_run by simp
  have "connection (snd res) = Some PortClosed"
    using silent_session_times_out [OF s r c w] o res by blast
  then show ?thesis
    using silent_session_times_out [OF s r c w] res by simp
qed

section \<open>The queue\<close>

text \<open>
  Claim C9. While the running flag is set, \<open>clear_queue\<close> shows the warning and leaves the
  whole state, the queue included, as it was.
\<close>

theorem clear_queue_rejected_while_running:
  assumes "is_running g"
  shows "clear_queue g = (g, Some (''Queue Running'', ''Cannot clear queue while running''))"
  using assms by (simp add: clear_queue_def)

theorem clear_queue_rejected_while_running_witness:
  "clear_queue \<lparr>measurement_queue = [cv_item, dispense_item], is_running = True, pump = True\<rparr>
     = (\<lparr>measurement_queue = [cv_item, dispense_item], is_running = True, pump = True\<rparr>,
        Some (''Queue Running'', ''Cannot clear queue while running''))"
  using clear_queue_rejected_while_running
    [of "\<lparr>measurement_queue = [cv_item, dispense_item], is_running = True, pump = True\<rparr>"]
  by simp

lemma execute_queue_serial_done:
  "measurement_queue g = [] \<or> \<not> is_running g \<Longrightarrow>
   execute_queue_serial w k g popped = (g\<lparr>is_running := False\<rparr>, popped)"
  by (subst execute_queue_serial.simps) auto

lemma queue_step_pops:
  assumes "measurement_queue g = c # rest"
  shows "measurement_queue (fst (queue_step x g)) = rest"
    and "snd (queue_step x g) = [dispatch (pump g) x (c\<lparr>status := ''running''\<rparr>)]"
    and "is_running (fst (queue_step x g)) = (is_running g \<and> \<not> stop_pressed x)"
    and "pump (fst (queue_step x g)) = pump g"
  using assms by (simp_all add: queue_step_def)

lemma pump_body_raises_status:
  "pump_body_raises f (c\<lparr>status := st\<rparr>) = pump_body_raises f c"
  unfolding pump_body_raises_def
  by (simp split del: if_split cong: option.case_cong)

lemma execute_pump_action_terminal: "terminal (status (execute_pump_action b f c))"
  by (simp add: execute_pump_action_def terminal_def)

lemma dispatch_terminal: "terminal (status (dispatch b x c))"
proof (cases "startswith (item_type c) ''PUMP_''")
  case True
  then show ?thesis by (simp add: dispatch_def execute_pump_action_terminal)
next
  case False
  then show ?thesis
    by (simp add: dispatch_def terminal_def split: option.splits proc_result.splits)
qed

lemma dispatch_measurement_fails:
  assumes "is_measurement c" and "measurement_fails x c"
  shows "dispatch b x (c\<lparr>status := st\<rparr>) = c\<lparr>status := ''failed''\<rparr>"
proof -
  have np: "\<not> startswith (item_type (c\<lparr>status := st\<rparr>)) ''PUMP_''"
    using assms(1) by (simp add: is_measurement_def)
  show ?thesis
  proof (cases "script_path c")
    case None
    then show ?thesis using np by (simp add: dispatch_def)
  next
    case (Some path)
    then have "proc x \<noteq> Exited 0" using assms(2) by (simp add: measurement_fails_def)
    then show ?thesis using np Some
      by (cases "proc x") (simp_all add: dispatch_def)
  qed
qed

lemma dispatch_dispense_succeeds:
  assumes "dispense_succeeds x c"
  shows "dispatch True x (c\<lparr>status := st\<rparr>) = c\<lparr>status := ''completed''\<rparr>"
proof -
  have t: "item_type c = ''PUMP_DISPENSE''" and nr: "\<not> pump_body_raises (pump_fails x) c"
    using assms by (simp_all add: dispense_succeeds_def)
  have p: "startswith (item_type (c\<lparr>status := st\<rparr>)) ''PUMP_''"
    using t by (simp add: startswith_def)
  show ?thesis
    using p nr by (simp add: dispatch_def execute_pump_action_def pump_body_raises_status)
qed

text \<open>
  Claim C3. A queue holds a measurement that fails (no script path, the process cannot be
  started, or it exits with a status other than 0) followed by a dispense action that the
  connected pump carries out. When \<open>run_queue\<close> starts the worker and nobody presses stop
  during the first item, the run ends with the queue empty and the running flag cleared;
  the first item was popped as failed and the second as completed. Moreover every pass of
  the loop pops the head of the queue, whatever the outside does, and the popped item is
  completed, failed or skipped.
\<close>

theorem failed_measurement_does_not_block_pump:
  assumes "measurement_queue g = [m, d]" and "\<not> is_running g" and "pump g"
    and "is_measurement m" and "measurement_fails (w 0) m" and "\<not> stop_pressed (w 0)"
    and "dispense_succeeds (w 1) d"
  shows "run_queue w g =
           ((g\<lparr>measurement_queue := [], is_running := False\<rparr>,
             [m\<lparr>status := ''failed''\<rparr>, d\<lparr>status := ''completed''\<rparr>]), None)
         \<and> (\<forall>x h c rest. measurement_queue h = c # rest \<longrightarrow>
               measurement_queue (fst (queue_step x h)) = rest
               \<and> snd (queue_step x h) = [dispatch (pump h) x (c\<lparr>status := ''running''\<rparr>)]
               \<and> terminal (status (dispatch (pump h) x (c\<lparr>status := ''running''\<rparr>))))"
proof -
  let ?g0 = "g\<lparr>is_running := True\<rparr>"
  let ?g1 = "fst (queue_step (w 0) ?g0)"
  let ?g2 = "fst (queue_step (w 1) ?g1)"
  have q0: "measurement_queue ?g0 = m # [d]" using assms(1) by simp
  have s1: "snd (queue_step (w 0) ?g0) = [m\<lparr>status := ''failed''\<rparr>]"
    using queue_step_pops(2) [OF q0] dispatch_measurement_fails [OF assms(4,5)] by simp
  have q1: "measurement_queue ?g1 = d # []" using queue_step_pops(1) [OF q0] .
  have r1: "is_running ?g1" using queue_step_pops(3) [OF q0] assms(6) by simp
  have p1: "pump ?g1" using queue_step_pops(4) [OF q0] assms(3) by simp
  have s2: "snd (queue_step (w 1) ?g1) = [d\<lparr>status := ''completed''\<rparr>]"
    using queue_step_pops(2) [OF q1] p1 dispatch_dispense_succeeds [OF assms(7)] by simp
  have q2: "measurement_queue ?g2 = []" using queue_step_pops(1) [OF q1] .
  have g2: "?g2\<lparr>is_running := False\<rparr> = g\<lparr>measurement_queue := [], is_running := False\<rparr>"
    using assms(1) by (simp add: queue_step_def)
  have e2: "execute_queue_serial w 2 ?g2 [m\<lparr>status := ''failed''\<rparr>, d\<lparr>status := ''completed''\<rparr>]
      = (?g2\<lparr>is_running := False\<rparr>, [m\<lparr>status := ''failed''\<rparr>, d\<lparr>status := ''completed''\<rparr>])"
    using q2 by (simp add: execute_queue_serial_done)
  have e1: "execute_queue_serial w 1 ?g1 [m\<lparr>status := ''failed''\<rparr>]
      = execute_queue_serial w 2 ?g2 [m\<lparr>status := ''failed''\<rparr>, d\<lparr>status := ''completed''\<rparr>]"
    using q1 r1 s2 by (subst execute_queue_serial.simps) (simp add: numeral_2_eq_2)
  have e0: "execute_queue_serial w 0 ?g0 [] = execute_queue_serial w 1 ?g1 [m\<lparr>status := ''failed''\<rparr>]"
    using q0 s1 by (subst execute_queue_serial.simps) simp
  have run: "run_queue w g =
           ((g\<lparr>measurement_queue := [], is_running := False\<rparr>,
             [m\<lparr>status := ''failed''\<rparr>, d\<lparr>status := ''completed''\<rparr>]), None)"
    using assms(1,2) e0 e1 e2 g2 by (simp add: run_queue_def)
  show ?thesis
    using run queue_step_pops(1,2) dispatch_terminal by blast
qed

theorem failed_measurement_does_not_block_pump_witness:
  "run_queue (world_exit 1)
       \<lparr>measurement_queue = [cv_item, dispense_item], is_running = False, pump = True\<rparr>
     = ((\<lparr>measurement_queue = [], is_running = False, pump = True\<rparr>,
         [cv_item\<lparr>status := ''failed''\<rparr>, dispense_item\<lparr>status := ''completed''\<rparr>]), None)
   \<and> measurement_queue (fst (queue_step (world_exit 0 0)
         \<lparr>measurement_queue = [cv_item, dispense_item], is_running = True, pump = False\<rparr>))
       = [dispense_item]"
proof -
  let ?g = "\<lparr>measurement_queue = [cv_item, dispense_item], is_running = False, pump = True\<rparr>"
  let ?h = "\<lparr>measurement_queue = [cv_item, dispense_item], is_running = True, pump = False\<rparr>"
  have q: "measurement_queue ?g = [cv_item, dispense_item]" and n: "\<not> is_running ?g"
    and p: "pump ?g"
    by simp_all
  have m: "is_measurement cv_item"
    by code_simp
  have f: "measurement_fails (world_exit 1 0) cv_item"
    by code_simp
  have s: "\<not> stop_pressed (world_exit 1 0)"
    by (simp add: world_exit_def)
  have d: "dispense_succeeds (world_exit 1 1) dispense_item"
    by code_simp
  note at_example = failed_measurement_does_not_block_pump [OF q n p m f s d]
  have h: "measurement_queue ?h = cv_item # [dispense_item]" by simp
  have "measurement_queue (fst (queue_step (world_exit 0 0) ?h)) = [dispense_item]"
    using at_example h by blast
  then show ?thesis using at_example by simp
qed

text \<open>
  Claim C10. The claim says that a measurement ended by the timeout exits with status 0
  and is marked completed. That is so only while no data point was collected. For a device
  that sends one data line and then stays silent, \<open>run_script\<close> returns True after the
  timeout, but \<open>run\<close> then calls \<open>self.save_data()\<close>, the boolean attribute and not
  the method: \<open>TypeError\<close> leaves \<open>run\<close>, the process ends with status 1 and the
  item is marked failed.
\<close>

theorem timeout_with_data_marked_failed:
  "map_option returned (run_script (snd (connect init_runner Replied)) one_line_device) = Some True
   \<and> map_option timed_out (run_script (snd (connect init_runner Replied)) one_line_device) = Some True
   \<and> map_option fst (run init_runner one_line_device) = Some (Inl TypeError)
   \<and> main one_line_device = Some 1
   \<and> status (dispatch True (world_exit 1 0) (cv_item\<lparr>status := ''running''\<rparr>)) = ''failed''"
proof -
  let ?pts = "[\<lparr>potential = Fin (- 1 / 2000), current = Fin (- 2345 / 1000)\<rparr>]"
  let ?r = "\<lparr>save_data = True, data_points = ?pts, connection = Some PortOpen\<rparr>"
  have rs: "run_script (snd (connect init_runner Replied)) one_line_device =
      Some \<lparr>returned = True, timed_out = True, reads = 601, runner_after = ?r\<rparr>"
    using one_line_device_loop
    by (simp add: run_script_def init_runner_def max_timeout_def one_line_device_def)
  have rn: "run init_runner one_line_device = Some (Inl TypeError, disconnect ?r)"
    using rs by (simp add: run_def init_runner_def one_line_device_def)
  have mn: "main one_line_device = Some 1"
    using rn by (simp add: main_def one_line_device_def)
  have ds: "status (dispatch True (world_exit 1 0) (cv_item\<lparr>status := ''running''\<rparr>)) = ''failed''"
    by (simp add: dispatch_def cv_item_def world_exit_def startswith_def)
  show ?thesis using rs rn mn ds by simp
qed

section \<open>The script encoders\<close>






lemma create_cv_ok:
  assumes "py_float (cv_cond_time p) = Some ct" and "py_int (cv_n_scans p) = Some ns"
  shows "create_cv_methodscript p = Inr (cv_script p ct ns)"
  using assms by (simp add: create_cv_methodscript_def then_do_def to_float_def to_int_def)
















end
